theory Spec2Isabelle
  imports Complex_Main "HOL-Library.Char_ord" "HOL-Library.List_Lexorder"
begin

section \<open>Data model (attendance/models.py and django.contrib.auth's User)\<close>

text \<open>
  Rows are records, tables are lists of rows in insertion order, and the database is a
  record of the four tables. Primary keys and foreign keys are natural numbers. A
  \<open>DateTimeField\<close> value is an aware datetime, modelled by its number of microseconds
  since the Unix epoch (Python's datetime resolution); a \<open>DateField\<close> value is a civil
  date (year, month, day).
\<close>

type_synonym timestamp = int

record date =
  date_year :: int
  date_month :: int
  date_day :: int

text \<open>The columns of \<open>auth.User\<close> that the views read or write.\<close>

record user =
  user_pk :: nat
  username :: string
  password :: string
  first_name :: string
  last_name :: string
  is_staff :: bool
  is_superuser :: bool
  is_active :: bool

record employee =
  emp_pk :: nat
  emp_user :: nat
  employee_id :: string
  department :: string
  designation :: string
  date_joined :: date

record attendance =
  att_pk :: nat
  att_employee :: nat
  att_date :: date
  clock_in :: "timestamp option"
  clock_out :: "timestamp option"
  worked_seconds :: nat

datatype leave_status = PENDING | APPROVED | REJECTED

record leave =
  leave_pk :: nat
  leave_employee :: nat
  start_date :: date
  end_date :: date
  reason :: string
  status :: leave_status
  applied_at :: timestamp
  approved_by :: "nat option"
  approved_at :: "timestamp option"

record db =
  users :: "user list"
  employees :: "employee list"
  attendances :: "attendance list"
  leaves :: "leave list"

subsection \<open>Query primitives\<close>

datatype get_error = DoesNotExist | MultipleObjectsReturned

text \<open>\<open>Model.objects.get(...)\<close>: the one matching row, or one of its two exceptions.\<close>

definition get_one :: "('a \<Rightarrow> bool) \<Rightarrow> 'a list \<Rightarrow> get_error + 'a" where
  "get_one P xs =
     (case filter P xs of
        [] \<Rightarrow> Inl DoesNotExist
      | [x] \<Rightarrow> Inr x
      | _ \<Rightarrow> Inl MultipleObjectsReturned)"

text \<open>The key an auto-increment primary key column gives to the next inserted row.\<close>

definition fresh_pk :: "nat list \<Rightarrow> nat" where
  "fresh_pk pks = Suc (fold max pks 0)"

text \<open>
  \<open>timezone.localtime(timestamp).date()\<close> under the settings \<open>USE_TZ = True\<close>,
  \<open>TIME_ZONE = "Asia/Kolkata"\<close>: the civil date of the instant at UTC+05:30 (the zone's
  offset for every instant since 1945; it has no daylight saving time). The day number is
  converted to a proleptic Gregorian date.
\<close>

definition kolkata_offset_us :: int where
  "kolkata_offset_us = 19800 * 1000000"

definition civil_from_days :: "int \<Rightarrow> date" where
  "civil_from_days days =
     (let z = days + 719468;
          era = z div 146097;
          doe = z - era * 146097;
          yoe = (doe - doe div 1460 + doe div 36524 - doe div 146096) div 365;
          doy = doe - (365 * yoe + yoe div 4 - yoe div 100);
          mp = (5 * doy + 2) div 153;
          d = doy - (153 * mp + 2) div 5 + 1;
          m = (if mp < 10 then mp + 3 else mp - 9);
          y = yoe + era * 400 + (if m \<le> 2 then 1 else 0)
      in \<lparr>date_year = y, date_month = m, date_day = d\<rparr>)"

definition local_date :: "timestamp \<Rightarrow> date" where
  "local_date ts = civil_from_days ((ts + kolkata_offset_us) div (86400 * 1000000))"

section \<open>Attendance.save (attendance/models.py)\<close>

text \<open>
  \<open>int(delta.total_seconds())\<close> for a timedelta of \<open>d\<close> microseconds:
  \<open>total_seconds()\<close> is \<open>d / 10**6\<close> and \<open>int\<close> truncates toward zero. The float
  quotient is taken as exact, which it is up to its integer part for every difference
  shorter than \<open>2^34\<close> seconds (some 544 years).
\<close>

definition total_seconds_int :: "int \<Rightarrow> int" where
  "total_seconds_int d = (if d < 0 then - ((- d) div 1000000) else d div 1000000)"

text \<open>
  The part of \<open>Attendance.save\<close> before \<open>super().save\<close>: \<open>worked_seconds\<close> is
  recomputed only when both timestamps are present (a datetime is always truthy, so the
  test is a test for \<open>None\<close>), and is left as it was otherwise.
\<close>

definition Attendance_compute :: "attendance \<Rightarrow> attendance" where
  "Attendance_compute a =
     (case clock_in a of
        None \<Rightarrow> a
      | Some ci \<Rightarrow>
          (case clock_out a of
             None \<Rightarrow> a
           | Some co \<Rightarrow> a\<lparr>worked_seconds := nat (max 0 (total_seconds_int (co - ci)))\<rparr>))"



section \<open>mark_attendance (attendance/views.py, attendance/forms.py)\<close>

datatype http_method = GET | POST

text \<open>
  The submitted \<open>AttendanceMarkForm\<close>. The two text fields hold the submitted values
  (\<open>employee_id\<close> after the field's whitespace stripping); the optional timestamp is
  absent, unparsable, or parsed by the form field to an aware datetime.
\<close>

datatype ts_input = NoTimestamp | BadTimestamp | Timestamp timestamp






section \<open>LeaveAdmin actions (attendance/admin.py)\<close>

text \<open>
  \<open>queryset.update(status=..., approved_at=timezone.now(), approved_by=request.user)\<close>:
  the queryset is the set of selected leave rows, given by their primary keys; the update
  rewrites the three columns of every selected row and tests nothing.
\<close>

definition queryset_update ::
    "leave_status \<Rightarrow> timestamp \<Rightarrow> user \<Rightarrow> nat list \<Rightarrow> db \<Rightarrow> db" where
  "queryset_update st now request_user queryset d =
     d\<lparr>leaves := map (\<lambda>l. if leave_pk l \<in> set queryset
                            then l\<lparr>status := st, approved_at := Some now,
                                   approved_by := Some (user_pk request_user)\<rparr>
                            else l) (leaves d)\<rparr>"

definition approve_leaves :: "user \<Rightarrow> timestamp \<Rightarrow> nat list \<Rightarrow> db \<Rightarrow> db" where
  "approve_leaves request_user now queryset d =
     queryset_update APPROVED now request_user queryset d"

definition reject_leaves :: "user \<Rightarrow> timestamp \<Rightarrow> nat list \<Rightarrow> db \<Rightarrow> db" where
  "reject_leaves request_user now queryset d =
     queryset_update REJECTED now request_user queryset d"

text \<open>A sequence of admin actions, each by some staff user at some time on some selection.\<close>

datatype leave_action = Approve | Reject

fun leave_step :: "leave_action \<times> user \<times> timestamp \<times> nat list \<Rightarrow> db \<Rightarrow> db" where
  "leave_step (Approve, u, now, qs) d = approve_leaves u now qs d"
| "leave_step (Reject, u, now, qs) d = reject_leaves u now qs d"

fun leave_steps :: "(leave_action \<times> user \<times> timestamp \<times> nat list) list \<Rightarrow> db \<Rightarrow> db" where
  "leave_steps [] d = d"
| "leave_steps (s # ss) d = leave_steps ss (leave_step s d)"

section \<open>register_employee (attendance/views.py, attendance/forms.py)\<close>

text \<open>
  The submitted \<open>EmployeeRegisterForm\<close>; text fields hold the values after the
  framework's whitespace stripping. A required field must be non-empty, and each field
  has its declared \<open>max_length\<close>.
\<close>

record EmployeeRegisterForm =
  reg_username :: string
  reg_first_name :: string
  reg_last_name :: string
  reg_password :: string
  reg_employee_id :: string
  reg_department :: string
  reg_designation :: string
  reg_is_admin :: bool

definition EmployeeRegisterForm_is_valid :: "EmployeeRegisterForm \<Rightarrow> bool" where
  "EmployeeRegisterForm_is_valid f \<longleftrightarrow>
     reg_username f \<noteq> [] \<and> length (reg_username f) \<le> 150 \<and>
     length (reg_first_name f) \<le> 150 \<and>
     length (reg_last_name f) \<le> 150 \<and>
     reg_password f \<noteq> [] \<and>
     reg_employee_id f \<noteq> [] \<and> length (reg_employee_id f) \<le> 20 \<and>
     length (reg_department f) \<le> 100 \<and>
     length (reg_designation f) \<le> 100"

datatype db_exception = IntegrityError

text \<open>
  \<open>User.objects.create_user\<close>: inserts an active, non-staff, non-superuser account;
  the unique constraint on \<open>username\<close> raises \<open>IntegrityError\<close>. The \<open>password\<close>
  column stands for what the hasher stores for the given password.
\<close>

definition create_user ::
    "string \<Rightarrow> string \<Rightarrow> string \<Rightarrow> string \<Rightarrow> db \<Rightarrow> db_exception + (user \<times> db)" where
  "create_user uname pw fname lname d =
     (if uname \<in> set (map username (users d)) then Inl IntegrityError
      else
        let u = \<lparr>user_pk = fresh_pk (map user_pk (users d)), username = uname,
                  password = pw, first_name = fname, last_name = lname,
                  is_staff = False, is_superuser = False, is_active = True\<rparr>
        in Inr (u, d\<lparr>users := users d @ [u]\<rparr>))"

text \<open>\<open>user.save()\<close> of a row that has a primary key.\<close>

definition save_user :: "user \<Rightarrow> db \<Rightarrow> db" where
  "save_user u d =
     d\<lparr>users := map (\<lambda>r. if user_pk r = user_pk u then u else r) (users d)\<rparr>"

text \<open>
  \<open>Employee.objects.create\<close>: \<open>employee_id\<close> is unique and \<open>user\<close> is one-to-one, so
  a second row with either value raises \<open>IntegrityError\<close>.
\<close>

definition Employee_create ::
    "user \<Rightarrow> string \<Rightarrow> string \<Rightarrow> string \<Rightarrow> date \<Rightarrow> db \<Rightarrow> db_exception + (employee \<times> db)" where
  "Employee_create u eid dept desig today d =
     (if eid \<in> set (map employee_id (employees d)) \<or>
         user_pk u \<in> set (map emp_user (employees d))
      then Inl IntegrityError
      else
        let e = \<lparr>emp_pk = fresh_pk (map emp_pk (employees d)), emp_user = user_pk u,
                  employee_id = eid, department = dept, designation = desig,
                  date_joined = today\<rparr>
        in Inr (e, d\<lparr>employees := employees d @ [e]\<rparr>))"

text \<open>
  \<open>with transaction.atomic():\<close> around a block. An exception leaving the block rolls
  the database back to its state at entry and propagates.
\<close>

definition atomic :: "(db \<Rightarrow> 'e + ('a \<times> db)) \<Rightarrow> db \<Rightarrow> ('e + 'a) \<times> db" where
  "atomic body d =
     (case body d of
        Inl e \<Rightarrow> (Inl e, d)
      | Inr (x, d') \<Rightarrow> (Inr x, d'))"

text \<open>The block under \<open>transaction.atomic()\<close> (lines 41 to 56 of the view).\<close>

definition register_block ::
    "EmployeeRegisterForm \<Rightarrow> timestamp \<Rightarrow> db \<Rightarrow> db_exception + ((user \<times> employee) \<times> db)" where
  "register_block data now d =
     (case create_user (reg_username data) (reg_password data)
             (reg_first_name data) (reg_last_name data) d of
        Inl e \<Rightarrow> Inl e
      | Inr (u, d1) \<Rightarrow>
          (let (u', d2) =
                 (if reg_is_admin data
                  then (let v = u\<lparr>is_staff := True, is_superuser := True\<rparr>
                        in (v, save_user v d1))
                  else (u, d1))
           in case Employee_create u' (reg_employee_id data) (reg_department data)
                     (reg_designation data) (local_date now) d2 of
                Inl e \<Rightarrow> Inl e
              | Inr (emp, d3) \<Rightarrow> Inr ((u', emp), d3)))"

datatype register_response =
    RegisterPage
  | RegisterPageInvalid
  | CouldNotRegister
  | RedirectToLogin

text \<open>
  The view takes the request's user (\<open>None\<close> for an anonymous visitor) like every view,
  and has no decorator: it never looks at it.
\<close>

definition register_employee ::
    "user option \<Rightarrow> http_method \<Rightarrow> EmployeeRegisterForm \<Rightarrow> timestamp \<Rightarrow> db
       \<Rightarrow> register_response \<times> db" where
  "register_employee request_user method form now d =
     (if method = POST then
        (if EmployeeRegisterForm_is_valid form then
           (case atomic (register_block form now) d of
              (Inr _, d') \<Rightarrow> (RedirectToLogin, d')
            | (Inl _, d') \<Rightarrow> (CouldNotRegister, d'))
         else (RegisterPageInvalid, d))
      else (RegisterPage, d))"

section \<open>apply_leave (attendance/views.py, attendance/forms.py)\<close>

text \<open>
  \<open>LeaveApplyForm\<close> is a model form over exactly the fields \<open>start_date\<close>,
  \<open>end_date\<close> and \<open>reason\<close>. A date field is \<open>None\<close> when it is missing or does not
  parse; both dates are required, the reason may be blank.
\<close>

record LeaveApplyForm =
  form_start_date :: "date option"
  form_end_date :: "date option"
  form_reason :: string

datatype leave_response =
    LeaveLoginRedirect
  | LeavePage
  | LeaveServerError
  | LeaveSubmitted

text \<open>
  \<open>request.user.employee\<close> is a \<open>get\<close> on the one-to-one relation; its exception is
  not caught here. A new row takes the model's defaults: status \<open>PENDING\<close>, no approver,
  no approval time, \<open>applied_at\<close> the time of the insert.
\<close>

definition apply_leave ::
    "user option \<Rightarrow> http_method \<Rightarrow> LeaveApplyForm \<Rightarrow> timestamp \<Rightarrow> db
       \<Rightarrow> leave_response \<times> db" where
  "apply_leave request_user method form now d =
     (case request_user of
        None \<Rightarrow> (LeaveLoginRedirect, d)
      | Some u \<Rightarrow>
          (if method = POST then
             (case (form_start_date form, form_end_date form) of
                (Some s, Some e) \<Rightarrow>
                  (case get_one (\<lambda>emp. emp_user emp = user_pk u) (employees d) of
                     Inl _ \<Rightarrow> (LeaveServerError, d)
                   | Inr emp \<Rightarrow>
                       (let l = \<lparr>leave_pk = fresh_pk (map leave_pk (leaves d)),
                                  leave_employee = emp_pk emp,
                                  start_date = s, end_date = e, reason = form_reason form,
                                  status = PENDING, applied_at = now,
                                  approved_by = None, approved_at = None\<rparr>
                        in (LeaveSubmitted, d\<lparr>leaves := leaves d @ [l]\<rparr>)))
              | _ \<Rightarrow> (LeavePage, d))
           else (LeavePage, d)))"

section \<open>terminate_employee and activate_employee (attendance/views.py)\<close>

datatype toggle_response =
    AdminLoginRedirect
  | UserListNoMessage
  | UserListNotFound
  | ToggleServerError
  | UserListSuccess

text \<open>\<open>staff_member_required\<close>: an active staff user, or a redirect to the admin login.\<close>

definition staff_member_required :: "user option \<Rightarrow> bool" where
  "staff_member_required request_user =
     (case request_user of None \<Rightarrow> False | Some u \<Rightarrow> is_active u \<and> is_staff u)"

text \<open>
  \<open>emp.user\<close> loads the account row of the employee's foreign key; the assignment and
  \<open>save\<close> act on that loaded row. Only \<open>Employee.DoesNotExist\<close> is caught.
\<close>

definition terminate_employee ::
    "user option \<Rightarrow> http_method \<Rightarrow> string \<Rightarrow> db \<Rightarrow> toggle_response \<times> db" where
  "terminate_employee request_user method eid d =
     (if \<not> staff_member_required request_user then (AdminLoginRedirect, d)
      else if method = POST then
        (case get_one (\<lambda>e. employee_id e = eid) (employees d) of
           Inl DoesNotExist \<Rightarrow> (UserListNotFound, d)
         | Inl MultipleObjectsReturned \<Rightarrow> (ToggleServerError, d)
         | Inr emp \<Rightarrow>
             (case get_one (\<lambda>u. user_pk u = emp_user emp) (users d) of
                Inl _ \<Rightarrow> (ToggleServerError, d)
              | Inr u \<Rightarrow> (UserListSuccess, save_user (u\<lparr>is_active := False\<rparr>) d)))
      else (UserListNoMessage, d))"

definition activate_employee ::
    "user option \<Rightarrow> http_method \<Rightarrow> string \<Rightarrow> db \<Rightarrow> toggle_response \<times> db" where
  "activate_employee request_user method eid d =
     (if \<not> staff_member_required request_user then (AdminLoginRedirect, d)
      else if method = POST then
        (case get_one (\<lambda>e. employee_id e = eid) (employees d) of
           Inl DoesNotExist \<Rightarrow> (UserListNotFound, d)
         | Inl MultipleObjectsReturned \<Rightarrow> (ToggleServerError, d)
         | Inr emp \<Rightarrow>
             (case get_one (\<lambda>u. user_pk u = emp_user emp) (users d) of
                Inl _ \<Rightarrow> (ToggleServerError, d)
              | Inr u \<Rightarrow> (UserListSuccess, save_user (u\<lparr>is_active := True\<rparr>) d)))
      else (UserListNoMessage, d))"

section \<open>monthly_report (attendance/views.py)\<close>

subsection \<open>The month\<close>

definition isleap :: "int \<Rightarrow> bool" where
  "isleap year \<longleftrightarrow> year mod 4 = 0 \<and> (year mod 100 \<noteq> 0 \<or> year mod 400 = 0)"

definition mdays :: "nat list" where
  "mdays = [0, 31, 28, 31, 30, 31, 30, 31, 31, 30, 31, 30, 31]"

text \<open>
  \<open>calendar.monthrange(year, month)[1]\<close>; \<open>None\<close> is its \<open>IllegalMonthError\<close>.
\<close>

definition monthrange :: "int \<Rightarrow> int \<Rightarrow> nat option" where
  "monthrange year month =
     (if 1 \<le> month \<and> month \<le> 12
      then Some (mdays ! nat month + (if month = 2 \<and> isleap year then 1 else 0))
      else None)"

text \<open>
  What the date column makes of the text \<open>f"{year}-{month:02d}-{day:02d}"\<close> for a valid
  month and day: the date, when the year is written with four digits; \<open>None\<close> is the
  field's \<open>ValidationError\<close>.
\<close>

definition to_date :: "int \<Rightarrow> int \<Rightarrow> int \<Rightarrow> date option" where
  "to_date year month dd =
     (if 1000 \<le> year \<and> year \<le> 9999
      then Some \<lparr>date_year = year, date_month = month, date_day = dd\<rparr>
      else None)"

definition date_le :: "date \<Rightarrow> date \<Rightarrow> bool" where
  "date_le a b \<longleftrightarrow>
     date_year a < date_year b \<or>
     (date_year a = date_year b \<and>
        (date_month a < date_month b \<or>
         (date_month a = date_month b \<and> date_day a \<le> date_day b)))"

subsection \<open>The queryset\<close>

text \<open>
  The queryset reads attendance rows joined to their employee and to the employee's
  account (both foreign keys are non-null, so the joins are inner joins).
\<close>

type_synonym att_row = "attendance \<times> employee \<times> user"

definition select_related :: "db \<Rightarrow> att_row list" where
  "select_related d =
     [(a, e, u). a \<leftarrow> attendances d,
                 e \<leftarrow> employees d, emp_pk e = att_employee a,
                 u \<leftarrow> users d, user_pk u = emp_user e]"

datatype report_failure =
    ReportLoginRedirect
  | IllegalMonthError
  | ValidationError
  | NotLinkedRedirect
  | ReportServerError
  | ZeroDivisionError

text \<open>
  Lines 157 to 181: the month's rows, narrowed to the viewer's own employee for a
  non-staff viewer, and to the requested department for a staff viewer who gave one.
  The result carries \<open>last_day\<close> with the rows.
\<close>

definition report_queryset ::
    "user \<Rightarrow> int \<Rightarrow> int \<Rightarrow> string \<Rightarrow> db \<Rightarrow> report_failure + (nat \<times> att_row list)" where
  "report_queryset viewer year month department_filter d =
     (case monthrange year month of
        None \<Rightarrow> Inl IllegalMonthError
      | Some last_day \<Rightarrow>
          (case (to_date year month 1, to_date year month (int last_day)) of
             (Some start_d, Some end_d) \<Rightarrow>
               (let att_qs = filter (\<lambda>(a, e, u). date_le start_d (att_date a) \<and>
                                                  date_le (att_date a) end_d)
                                    (select_related d)
                in case (if \<not> is_staff viewer
                         then (case get_one (\<lambda>e. emp_user e = user_pk viewer) (employees d) of
                                 Inr emp \<Rightarrow>
                                   Inr (filter (\<lambda>(a, e, u). att_employee a = emp_pk emp) att_qs)
                               | Inl DoesNotExist \<Rightarrow> Inl NotLinkedRedirect
                               | Inl MultipleObjectsReturned \<Rightarrow> Inl ReportServerError)
                         else Inr att_qs) of
                     Inl f \<Rightarrow> Inl f
                   | Inr att_qs1 \<Rightarrow>
                       Inr (last_day,
                            if department_filter \<noteq> [] \<and> is_staff viewer
                            then filter (\<lambda>(a, e, u). department e = department_filter) att_qs1
                            else att_qs1))
           | _ \<Rightarrow> Inl ValidationError))"

subsection \<open>Aggregation\<close>

text \<open>
  \<open>values(emp_id, name, department).annotate(total_seconds, days_present)\<close> groups the
  rows by the three values and sums within each group; \<open>order_by("emp_id")\<close> sorts the
  groups by \<open>emp_id\<close> ascending, strings compared byte by byte as the database's
  default collation does. (The order of groups with equal \<open>emp_id\<close> is the database's
  choice; here they stay in the order \<open>remdups\<close> leaves them.)
\<close>

record agg_row =
  agg_emp_id :: string
  agg_name :: string
  agg_department :: string
  agg_total_seconds :: nat
  agg_days_present :: nat

definition group_key :: "att_row \<Rightarrow> string \<times> string \<times> string" where
  "group_key r = (case r of (a, e, u) \<Rightarrow> (employee_id e, first_name u, department e))"

definition values_annotate :: "att_row list \<Rightarrow> agg_row list" where
  "values_annotate qs =
     map (\<lambda>k. let g = filter (\<lambda>r. group_key r = k) qs in
            \<lparr>agg_emp_id = fst k, agg_name = fst (snd k), agg_department = snd (snd k),
             agg_total_seconds = sum_list (map (\<lambda>(a, e, u). worked_seconds a) g),
             agg_days_present =
               sum_list (map (\<lambda>(a, e, u). if clock_in a \<noteq> None then 1 else 0) g)\<rparr>)
         (remdups (map group_key qs))"

definition order_by_emp_id :: "agg_row list \<Rightarrow> agg_row list" where
  "order_by_emp_id agg = sort_key agg_emp_id agg"

subsection \<open>Rows and summary\<close>

text \<open>Python's \<open>str\<close> of a non-negative integer.\<close>

definition digit_char :: "nat \<Rightarrow> char" where
  "digit_char n = ''0123456789'' ! n"

function str_nat :: "nat \<Rightarrow> string" where
  "str_nat n = (if n < 10 then [digit_char n] else str_nat (n div 10) @ [digit_char (n mod 10)])"
  by pat_completeness auto
termination
  by (relation "measure (\<lambda>n. n)") auto

declare str_nat.simps [simp del]

record report_row =
  row_employee_id :: string
  row_name :: string
  row_department :: string
  row_days_present :: nat
  row_total_time :: string
  row_total_seconds :: nat

text \<open>
  The body of the loop over \<open>agg\<close>. The sums of a group are never null and the two text
  columns never null, so the \<open>or 0\<close> and \<open>or ""\<close> defaults leave every value as it is.
\<close>

definition make_row :: "agg_row \<Rightarrow> report_row" where
  "make_row r =
     (let total_seconds = agg_total_seconds r;
          hrs = total_seconds div 3600;
          mins = (total_seconds mod 3600) div 60
      in \<lparr>row_employee_id = agg_emp_id r, row_name = agg_name r,
          row_department = agg_department r, row_days_present = agg_days_present r,
          row_total_time = str_nat hrs @ ''h '' @ str_nat mins @ ''m'',
          row_total_seconds = total_seconds\<rparr>)"

fun prepare_rows :: "agg_row list \<Rightarrow> report_row list \<Rightarrow> nat \<Rightarrow> report_row list \<times> nat" where
  "prepare_rows [] rows total_present_days = (rows, total_present_days)"
| "prepare_rows (r # agg) rows total_present_days =
     prepare_rows agg (rows @ [make_row r]) (total_present_days + agg_days_present r)"

text \<open>
  \<open>average_attendance\<close>: the text \<open>f"{x:.1f}%"\<close> of the quotient \<open>x\<close>, or the literal
  \<open>"0%"\<close>. The quotient is kept as the exact rational that the float computation
  approximates, and its one-decimal formatting is kept symbolic. \<open>None\<close> is the
  \<open>ZeroDivisionError\<close> of a zero divisor.
\<close>

datatype percent_text = Format_1f rat | Literal_0_percent

definition average_attendance :: "nat \<Rightarrow> nat \<Rightarrow> nat \<Rightarrow> percent_text option" where
  "average_attendance total_present_days total_employees working_days =
     (if total_employees > 0
      then (if total_employees * working_days = 0 then None
            else Some (Format_1f (of_nat total_present_days /
                                  of_nat (total_employees * working_days) * 100)))
      else Some Literal_0_percent)"

record report =
  ctx_rows :: "report_row list"
  ctx_total_employees :: nat
  ctx_total_present_days :: nat
  ctx_average_attendance :: percent_text
  ctx_total_hours :: string
  ctx_working_days :: nat

text \<open>Lines 185 to 223: from the queryset to the rows and the summary statistics.\<close>

definition report_context :: "nat \<Rightarrow> att_row list \<Rightarrow> report_failure + report" where
  "report_context last_day att_qs =
     (let working_days = last_day;
          agg = order_by_emp_id (values_annotate att_qs);
          total_employees = length agg;
          (rows, total_present_days) = prepare_rows agg [] 0
      in case average_attendance total_present_days total_employees working_days of
           None \<Rightarrow> Inl ZeroDivisionError
         | Some avg \<Rightarrow>
             Inr \<lparr>ctx_rows = rows, ctx_total_employees = total_employees,
                  ctx_total_present_days = total_present_days,
                  ctx_average_attendance = avg,
                  ctx_total_hours = str_nat (sum_list (map row_total_seconds rows) div 3600) @ ''h'',
                  ctx_working_days = working_days\<rparr>)"

text \<open>
  The view up to its context (the download branches write the same rows out as CSV).
  \<open>login_required\<close> sends an anonymous visitor to the login page. \<open>year\<close> and
  \<open>month\<close> are the integers read from the query string, defaults applied.
\<close>

definition monthly_report ::
    "user option \<Rightarrow> int \<Rightarrow> int \<Rightarrow> string \<Rightarrow> db \<Rightarrow> report_failure + report" where
  "monthly_report request_user year month department_filter d =
     (case request_user of
        None \<Rightarrow> Inl ReportLoginRedirect
      | Some viewer \<Rightarrow>
          (case report_queryset viewer year month department_filter d of
             Inl f \<Rightarrow> Inl f
           | Inr (last_day, att_qs) \<Rightarrow> report_context last_day att_qs))"

section \<open>Example data\<close>

text \<open>
  A small database used to run the operations on concrete inputs: a staff account and
  two ordinary accounts, each with an employee row, and no attendance or leave rows.
  The two instants are 09:00 and 17:30 local time on 2024-03-01, the third is 10:00.
\<close>

definition ex_alice :: user where
  "ex_alice = \<lparr>user_pk = 1, username = ''alice'', password = ''pw1'', first_name = ''Alice'',
                last_name = ''Rao'', is_staff = True, is_superuser = False, is_active = True\<rparr>"

definition ex_bob :: user where
  "ex_bob = \<lparr>user_pk = 2, username = ''bob'', password = ''pw2'', first_name = ''Bob'',
              last_name = ''Das'', is_staff = False, is_superuser = False, is_active = True\<rparr>"

definition ex_carol :: user where
  "ex_carol = \<lparr>user_pk = 3, username = ''carol'', password = ''pw3'', first_name = ''Carol'',
                last_name = ''Nair'', is_staff = False, is_superuser = False, is_active = True\<rparr>"

definition ex_joined :: date where
  "ex_joined = \<lparr>date_year = 2023, date_month = 6, date_day = 15\<rparr>"

definition ex_emp1 :: employee where
  "ex_emp1 = \<lparr>emp_pk = 1, emp_user = 1, employee_id = ''EMP1'', department = ''ADMIN'',
               designation = ''Manager'', date_joined = ex_joined\<rparr>"

definition ex_emp2 :: employee where
  "ex_emp2 = \<lparr>emp_pk = 2, emp_user = 2, employee_id = ''EMP2'', department = ''IT'',
               designation = ''Engineer'', date_joined = ex_joined\<rparr>"

definition ex_emp0 :: employee where
  "ex_emp0 = \<lparr>emp_pk = 3, emp_user = 3, employee_id = ''EMP0'', department = ''HR'',
               designation = ''Recruiter'', date_joined = ex_joined\<rparr>"

definition ex_db :: db where
  "ex_db = \<lparr>users = [ex_alice, ex_bob, ex_carol], employees = [ex_emp1, ex_emp2, ex_emp0],
             attendances = [], leaves = []\<rparr>"

definition t_0900 :: timestamp where
  "t_0900 = 1709263800000000"

definition t_1000 :: timestamp where
  "t_1000 = 1709267400000000"

definition t_1730 :: timestamp where
  "t_1730 = 1709294400000000"

definition ex_day :: date where
  "ex_day = \<lparr>date_year = 2024, date_month = 3, date_day = 1\<rparr>"

definition ex_leave :: leave where
  "ex_leave = \<lparr>leave_pk = 1, leave_employee = 2, start_date = ex_day, end_date = ex_day,
                reason = ''Family function'', status = PENDING, applied_at = t_0900,
                approved_by = None, approved_at = None\<rparr>"

definition ex_leave_db :: db where
  "ex_leave_db = ex_db\<lparr>leaves := [ex_leave]\<rparr>"

definition ex_leave_form :: LeaveApplyForm where
  "ex_leave_form = \<lparr>form_start_date = Some ex_day, form_end_date = Some ex_day,
                     form_reason = ''Family function''\<rparr>"

definition ex_bob_terminated :: db where
  "ex_bob_terminated = ex_db\<lparr>users := [ex_alice, ex_bob\<lparr>is_active := False\<rparr>, ex_carol]\<rparr>"

definition ex_register_form :: EmployeeRegisterForm where
  "ex_register_form = \<lparr>reg_username = ''dave'', reg_first_name = ''Dave'', reg_last_name = ''Iyer'',
                        reg_password = ''pw4'', reg_employee_id = ''EMP9'', reg_department = ''OPS'',
                        reg_designation = ''Analyst'', reg_is_admin = True\<rparr>"

definition ex_duplicate_form :: EmployeeRegisterForm where
  "ex_duplicate_form = ex_register_form\<lparr>reg_employee_id := ''EMP1''\<rparr>"

definition ex_march_db :: db where
  "ex_march_db = ex_db\<lparr>attendances :=
     [\<lparr>att_pk = 1, att_employee = 2, att_date = ex_day, clock_in = Some t_0900,
       clock_out = Some t_1730, worked_seconds = 30600\<rparr>,
      \<lparr>att_pk = 2, att_employee = 3, att_date = ex_day, clock_in = Some t_1000,
       clock_out = None, worked_seconds = 0\<rparr>,
      \<lparr>att_pk = 3, att_employee = 1, att_date = ex_day, clock_in = None,
       clock_out = Some t_1730, worked_seconds = 0\<rparr>]\<rparr>"

definition ex_row_bob :: report_row where
  "ex_row_bob = \<lparr>row_employee_id = ''EMP2'', row_name = ''Bob'', row_department = ''IT'',
                  row_days_present = 1, row_total_time = ''8h 30m'', row_total_seconds = 30600\<rparr>"

definition ex_row_carol :: report_row where
  "ex_row_carol = \<lparr>row_employee_id = ''EMP0'', row_name = ''Carol'', row_department = ''HR'',
                    row_days_present = 1, row_total_time = ''0h 0m'', row_total_seconds = 0\<rparr>"

definition ex_row_alice :: report_row where
  "ex_row_alice = \<lparr>row_employee_id = ''EMP1'', row_name = ''Alice'', row_department = ''ADMIN'',
                    row_days_present = 0, row_total_time = ''0h 0m'', row_total_seconds = 0\<rparr>"

definition ex_report_march :: report where
  "ex_report_march =
     \<lparr>ctx_rows = [ex_row_carol, ex_row_alice, ex_row_bob], ctx_total_employees = 3,
      ctx_total_present_days = 2, ctx_average_attendance = Format_1f (200 / 93),
      ctx_total_hours = ''8h'', ctx_working_days = 31\<rparr>"

definition ex_report_april :: report where
  "ex_report_april =
     \<lparr>ctx_rows = [], ctx_total_employees = 0, ctx_total_present_days = 0,
      ctx_average_attendance = Literal_0_percent, ctx_total_hours = ''0h'',
      ctx_working_days = 30\<rparr>"

definition ex_report_bob :: report where
  "ex_report_bob =
     \<lparr>ctx_rows = [ex_row_bob], ctx_total_employees = 1, ctx_total_present_days = 1,
      ctx_average_attendance = Format_1f (100 / 31), ctx_total_hours = ''8h'',
      ctx_working_days = 31\<rparr>"





section \<open>Theorems\<close>

subsection \<open>Facts about \<open>get\<close>\<close>

lemma get_one_Inr: "get_one P xs = Inr x \<Longrightarrow> filter P xs = [x]"
  by (auto simp: get_one_def split: list.splits)

lemma get_one_mem: "get_one P xs = Inr x \<Longrightarrow> x \<in> set xs \<and> P x"
proof -
  assume "get_one P xs = Inr x"
  then have "filter P xs = [x]" by (rule get_one_Inr)
  then have "x \<in> set (filter P xs)" by simp
  then show ?thesis by simp
qed

lemma get_one_unique: "get_one P xs = Inr x \<Longrightarrow> y \<in> set xs \<Longrightarrow> P y \<Longrightarrow> y = x"
proof -
  assume g: "get_one P xs = Inr x" and "y \<in> set xs" and "P y"
  then have "y \<in> set (filter P xs)" by simp
  also have "filter P xs = [x]" using g by (rule get_one_Inr)
  finally show ?thesis by simp
qed

subsection \<open>Worked seconds\<close>



lemma fold_max_ge: "(a::nat) \<le> fold max xs a \<and> (\<forall>x \<in> set xs. x \<le> fold max xs a)"
proof (induction xs arbitrary: a)
  case Nil
  then show ?case by simp
next
  case (Cons y ys)
  from Cons.IH [of "max y a"] show ?case by auto
qed

lemma fresh_pk_notin: "fresh_pk pks \<notin> set pks"
proof
  assume "fresh_pk pks \<in> set pks"
  then have "fresh_pk pks \<le> fold max pks 0" using fold_max_ge [of 0 pks] by blast
  then show False by (simp add: fresh_pk_def)
qed

subsection \<open>Leave status under the admin actions\<close>

lemma queryset_update_length [simp]:
  "length (leaves (queryset_update st now u qs d)) = length (leaves d)"
  by (simp add: queryset_update_def)

lemma queryset_update_nth:
  "i < length (leaves d) \<Longrightarrow>
   leaves (queryset_update st now u qs d) ! i =
     (if leave_pk (leaves d ! i) \<in> set qs
      then (leaves d ! i)\<lparr>status := st, approved_at := Some now, approved_by := Some (user_pk u)\<rparr>
      else leaves d ! i)"
  by (simp add: queryset_update_def)

lemma leave_step_length [simp]: "length (leaves (leave_step s d)) = length (leaves d)"
proof -
  obtain a u now qs where s: "s = (a, u, now, qs)" by (cases s)
  show ?thesis unfolding s by (cases a) (simp_all add: approve_leaves_def reject_leaves_def)
qed

lemma leave_step_nth:
  assumes "i < length (leaves d)"
  shows "leave_pk (leaves (leave_step s d) ! i) = leave_pk (leaves d ! i) \<and>
         (status (leaves d ! i) \<noteq> PENDING \<longrightarrow> status (leaves (leave_step s d) ! i) \<noteq> PENDING)"
proof -
  obtain a u now qs where s: "s = (a, u, now, qs)" by (cases s)
  show ?thesis unfolding s using assms
    by (cases a) (simp_all add: approve_leaves_def reject_leaves_def queryset_update_nth)
qed

lemma leave_steps_length [simp]: "length (leaves (leave_steps ss d)) = length (leaves d)"
  by (induction ss arbitrary: d) simp_all

lemma leave_steps_nth:
  "i < length (leaves d) \<Longrightarrow>
   leave_pk (leaves (leave_steps ss d) ! i) = leave_pk (leaves d ! i) \<and>
   (status (leaves d ! i) \<noteq> PENDING \<longrightarrow> status (leaves (leave_steps ss d) ! i) \<noteq> PENDING)"
proof (induction ss arbitrary: d)
  case Nil
  then show ?case by simp
next
  case (Cons s ss)
  have i: "i < length (leaves (leave_step s d))" using Cons.prems by simp
  from Cons.IH [OF i] leave_step_nth [OF Cons.prems, of s]
  show ?case by simp
qed

text \<open>
  C1, as the code has it. The claim as stated fails: a rejected leave that is then
  approved becomes \<open>APPROVED\<close>, so a leave does leave a terminal state.
\<close>

theorem leave_terminal_state_left_counterexample:
  "map status (leaves (reject_leaves ex_alice t_1000 [1] ex_leave_db)) = [REJECTED] \<and>
   map status (leaves (approve_leaves ex_alice t_1730 [1]
                 (reject_leaves ex_alice t_1000 [1] ex_leave_db))) = [APPROVED]"
  by (simp add: approve_leaves_def reject_leaves_def queryset_update_def ex_leave_db_def
        ex_leave_def)

text \<open>
  C1, amended. Approve and reject overwrite the status of every selected leave whatever
  its current status: after approve a selected leave is \<open>APPROVED\<close>, after reject it is
  \<open>REJECTED\<close>. For every sequence of approve and reject steps, every leave row keeps
  its place and its key, and a leave that is \<open>APPROVED\<close> or \<open>REJECTED\<close> is never
  \<open>PENDING\<close> again.
\<close>

theorem leave_status_overwritten_never_pending:
  assumes "i < length (leaves d)"
  shows "length (leaves (leave_steps ss d)) = length (leaves d) \<and>
         leave_pk (leaves (leave_steps ss d) ! i) = leave_pk (leaves d ! i) \<and>
         (status (leaves d ! i) \<noteq> PENDING \<longrightarrow>
            status (leaves (leave_steps ss d) ! i) \<noteq> PENDING) \<and>
         (leave_pk (leaves d ! i) \<in> set qs \<longrightarrow>
            status (leaves (approve_leaves u now qs d) ! i) = APPROVED \<and>
            status (leaves (reject_leaves u now qs d) ! i) = REJECTED)"
  using assms leave_steps_nth [OF assms, of ss]
  by (simp add: approve_leaves_def reject_leaves_def queryset_update_nth)

theorem leave_status_overwritten_never_pending_witness:
  "0 < length (leaves (reject_leaves ex_alice t_1000 [1] ex_leave_db)) \<and>
   status (leaves (reject_leaves ex_alice t_1000 [1] ex_leave_db) ! 0) = REJECTED \<and>
   status (leaves (leave_steps [(Approve, ex_alice, t_1730, [1]), (Reject, ex_alice, t_1730, [1])]
              (reject_leaves ex_alice t_1000 [1] ex_leave_db)) ! 0) \<noteq> PENDING \<and>
   status (leaves (approve_leaves ex_alice t_1730 [1]
              (reject_leaves ex_alice t_1000 [1] ex_leave_db)) ! 0) = APPROVED"
  using leave_status_overwritten_never_pending
          [of 0 "reject_leaves ex_alice t_1000 [1] ex_leave_db"
              "[(Approve, ex_alice, t_1730, [1]), (Reject, ex_alice, t_1730, [1])]"
              "[1]" ex_alice t_1730]
  by (simp add: reject_leaves_def queryset_update_def ex_leave_db_def ex_leave_def)

subsection \<open>Terminating and activating\<close>

lemma save_user_toggle:
  assumes "get_one (\<lambda>u. user_pk u = k) (users d) = Inr u"
  shows "save_user (u\<lparr>is_active := b\<rparr>) d =
           d\<lparr>users := map (\<lambda>r. if user_pk r = k then r\<lparr>is_active := b\<rparr> else r) (users d)\<rparr>"
proof -
  have k: "user_pk u = k" using get_one_mem [OF assms] by simp
  have "\<And>r. r \<in> set (users d) \<Longrightarrow> user_pk r = k \<Longrightarrow> r = u"
    using get_one_unique [OF assms] by simp
  then have "map (\<lambda>r. if user_pk r = user_pk (u\<lparr>is_active := b\<rparr>)
                       then u\<lparr>is_active := b\<rparr> else r) (users d)
           = map (\<lambda>r. if user_pk r = k then r\<lparr>is_active := b\<rparr> else r) (users d)"
    using k by (intro map_cong) auto
  then show ?thesis by (simp add: save_user_def)
qed

text \<open>
  C7. A terminate or activate call leaves the employee, attendance and leave tables as
  they were. When it succeeds, the account table is the old one with the active flag of
  the employee's account set (to false by terminate, to true by activate): no row is
  added or removed and no other column changes. When it does not succeed the database
  is unchanged. For a staff caller, a POST and an existing employee it succeeds.
\<close>

theorem toggle_active_frame:
  assumes "view = terminate_employee \<and> flag = False \<or> view = activate_employee \<and> flag = True"
      and "view request_user method eid d = (resp, d')"
  shows "employees d' = employees d \<and> attendances d' = attendances d \<and> leaves d' = leaves d \<and>
         (if resp = UserListSuccess
          then \<exists>emp. get_one (\<lambda>e. employee_id e = eid) (employees d) = Inr emp \<and>
                 users d' = map (\<lambda>r. if user_pk r = emp_user emp then r\<lparr>is_active := flag\<rparr> else r)
                                (users d)
          else d' = d) \<and>
         (staff_member_required request_user \<and> method = POST \<and>
          (\<exists>emp u. get_one (\<lambda>e. employee_id e = eid) (employees d) = Inr emp \<and>
                   get_one (\<lambda>u. user_pk u = emp_user emp) (users d) = Inr u)
            \<longrightarrow> resp = UserListSuccess)"
  using assms
  by (auto simp: terminate_employee_def activate_employee_def save_user_toggle
           split: if_splits sum.splits get_error.splits)

theorem toggle_active_frame_witness:
  "terminate_employee (Some ex_alice) POST ''EMP2'' ex_db = (UserListSuccess, ex_bob_terminated) \<and>
   employees ex_bob_terminated = employees ex_db \<and>
   activate_employee (Some ex_alice) POST ''EMP2'' ex_bob_terminated = (UserListSuccess, ex_db) \<and>
   leaves ex_db = leaves ex_bob_terminated"
proof -
  have t: "terminate_employee (Some ex_alice) POST ''EMP2'' ex_db =
             (UserListSuccess, ex_bob_terminated)"
    by (simp add: terminate_employee_def staff_member_required_def get_one_def save_user_def
          ex_bob_terminated_def ex_db_def ex_alice_def ex_bob_def ex_carol_def ex_emp1_def
          ex_emp2_def ex_emp0_def)
  have a: "activate_employee (Some ex_alice) POST ''EMP2'' ex_bob_terminated =
             (UserListSuccess, ex_db)"
    by (simp add: activate_employee_def staff_member_required_def get_one_def save_user_def
          ex_bob_terminated_def ex_db_def ex_alice_def ex_bob_def ex_carol_def ex_emp1_def
          ex_emp2_def ex_emp0_def)
  have "employees ex_bob_terminated = employees ex_db"
    using toggle_active_frame [of terminate_employee False, OF _ t] by simp
  moreover have "leaves ex_db = leaves ex_bob_terminated"
    using toggle_active_frame [of activate_employee True, OF _ a] by simp
  ultimately show ?thesis using t a by simp
qed

subsection \<open>Applying for leave\<close>

text \<open>
  C10. A leave request is created only for a logged-in viewer, and the created row is
  bound to the employee of that viewer (the form has no employee field), has status
  \<open>PENDING\<close>, and has neither approver nor approval time; the rest of the database is
  unchanged. When nothing is created the database is unchanged. A POST of two valid
  dates by a viewer who has an employee row does create the request.
\<close>

theorem apply_leave_own_pending:
  assumes "apply_leave request_user method form now d = (resp, d')"
  shows "(if resp = LeaveSubmitted
          then \<exists>viewer emp l.
                 request_user = Some viewer \<and>
                 get_one (\<lambda>e. emp_user e = user_pk viewer) (employees d) = Inr emp \<and>
                 d' = d\<lparr>leaves := leaves d @ [l]\<rparr> \<and>
                 leave_employee l = emp_pk emp \<and> status l = PENDING \<and>
                 approved_by l = None \<and> approved_at l = None \<and>
                 form_start_date form = Some (start_date l) \<and>
                 form_end_date form = Some (end_date l) \<and> reason l = form_reason form
          else d' = d) \<and>
         ((\<exists>viewer s e emp. request_user = Some viewer \<and> method = POST \<and>
              form_start_date form = Some s \<and> form_end_date form = Some e \<and>
              get_one (\<lambda>e. emp_user e = user_pk viewer) (employees d) = Inr emp)
            \<longrightarrow> resp = LeaveSubmitted)"
  using assms
  by (auto simp: apply_leave_def Let_def
           split: option.splits if_splits sum.splits prod.splits)

theorem apply_leave_own_pending_witness:
  "apply_leave (Some ex_bob) POST ex_leave_form t_0900 ex_db = (LeaveSubmitted, ex_leave_db) \<and>
   get_one (\<lambda>e. emp_user e = user_pk ex_bob) (employees ex_db) = Inr ex_emp2 \<and>
   map leave_employee (leaves ex_leave_db) = [emp_pk ex_emp2] \<and>
   map status (leaves ex_leave_db) = [PENDING] \<and>
   map approved_by (leaves ex_leave_db) = [None] \<and>
   map approved_at (leaves ex_leave_db) = [None]"
proof -
  have run: "apply_leave (Some ex_bob) POST ex_leave_form t_0900 ex_db =
               (LeaveSubmitted, ex_leave_db)"
    by (simp add: apply_leave_def get_one_def fresh_pk_def ex_leave_form_def ex_leave_db_def
          ex_leave_def ex_db_def ex_bob_def ex_emp1_def ex_emp2_def ex_emp0_def)
  from apply_leave_own_pending [OF run]
  obtain viewer emp l where
    v: "Some ex_bob = Some viewer" and
    g: "get_one (\<lambda>e. emp_user e = user_pk viewer) (employees ex_db) = Inr emp" and
    d: "ex_leave_db = ex_db\<lparr>leaves := leaves ex_db @ [l]\<rparr>" and
    l: "leave_employee l = emp_pk emp" "status l = PENDING" "approved_by l = None"
       "approved_at l = None"
    by auto
  have vb: "viewer = ex_bob" using v by simp
  have e: "emp = ex_emp2"
    using g unfolding vb
    by (simp add: get_one_def ex_db_def ex_bob_def ex_emp1_def ex_emp2_def ex_emp0_def)
  have "leaves ex_leave_db = leaves (ex_db\<lparr>leaves := leaves ex_db @ [l]\<rparr>)"
    using d by simp
  then have "leaves ex_leave_db = [l]" by (simp add: ex_db_def)
  then show ?thesis using run g l e unfolding vb by simp
qed

subsection \<open>Registration\<close>

lemma save_new_user:
  assumes "user_pk u = fresh_pk (map user_pk (users d))" and "user_pk v = user_pk u"
  shows "save_user v (d\<lparr>users := users d @ [u]\<rparr>) = d\<lparr>users := users d @ [v]\<rparr>"
proof -
  have "\<And>r. r \<in> set (users d) \<Longrightarrow> user_pk r \<noteq> user_pk v"
    using assms fresh_pk_notin [of "map user_pk (users d)"] by (metis image_eqI set_map)
  then have "map (\<lambda>r. if user_pk r = user_pk v then v else r) (users d) = users d"
    by (intro map_idI) simp
  then show ?thesis using assms by (simp add: save_user_def)
qed

lemma create_user_Inr:
  assumes "create_user uname pw fname lname d = Inr (u, d1)"
  shows "d1 = d\<lparr>users := users d @ [u]\<rparr> \<and> user_pk u = fresh_pk (map user_pk (users d)) \<and>
         username u = uname \<and> \<not> is_staff u \<and> \<not> is_superuser u \<and> is_active u \<and>
         uname \<notin> set (map username (users d))"
  using assms by (auto simp: create_user_def Let_def split: if_splits)

lemma Employee_create_Inr:
  assumes "Employee_create u eid dept desig today d = Inr (e, d1)"
  shows "d1 = d\<lparr>employees := employees d @ [e]\<rparr> \<and> emp_user e = user_pk u \<and>
         employee_id e = eid \<and> eid \<notin> set (map employee_id (employees d))"
  using assms by (auto simp: Employee_create_def Let_def split: if_splits)

lemma register_block_Inr:
  assumes "register_block form now d = Inr ((u, e), d')"
  shows "d' = d\<lparr>users := users d @ [u], employees := employees d @ [e]\<rparr> \<and>
         username u = reg_username form \<and> is_staff u = reg_is_admin form \<and>
         is_superuser u = reg_is_admin form \<and> is_active u \<and>
         emp_user e = user_pk u \<and> employee_id e = reg_employee_id form"
proof -
  from assms obtain u0 d1 where
    c: "create_user (reg_username form) (reg_password form) (reg_first_name form)
          (reg_last_name form) d = Inr (u0, d1)"
    by (auto simp: register_block_def split: sum.splits)
  note c0 = create_user_Inr [OF c]
  show ?thesis
  proof (cases "reg_is_admin form")
    case True
    let ?v = "u0\<lparr>is_staff := True, is_superuser := True\<rparr>"
    have s: "save_user ?v d1 = d\<lparr>users := users d @ [?v]\<rparr>"
      using c0 save_new_user [of u0 d ?v] by simp
    from assms c True s have
      e: "Employee_create ?v (reg_employee_id form) (reg_department form)
            (reg_designation form) (local_date now) (d\<lparr>users := users d @ [?v]\<rparr>) = Inr (e, d')"
      and u: "u = ?v"
      by (auto simp: register_block_def Let_def split: sum.splits)
    from Employee_create_Inr [OF e] u c0 True show ?thesis by simp
  next
    case False
    from assms c False have
      e: "Employee_create u0 (reg_employee_id form) (reg_department form)
            (reg_designation form) (local_date now) d1 = Inr (e, d')"
      and u: "u = u0"
      by (auto simp: register_block_def Let_def split: sum.splits)
    from Employee_create_Inr [OF e] u c0 False show ?thesis by simp
  qed
qed

lemma register_block_succeeds:
  assumes "reg_username form \<notin> set (map username (users d))"
      and "reg_employee_id form \<notin> set (map employee_id (employees d))"
      and "set (map emp_user (employees d)) \<subseteq> set (map user_pk (users d))"
  shows "\<exists>r. register_block form now d = Inr r"
proof -
  have f: "fresh_pk (map user_pk (users d)) \<notin> set (map emp_user (employees d))"
    using assms(3) fresh_pk_notin [of "map user_pk (users d)"] by blast
  show ?thesis
    using assms(1,2) f
    by (simp add: register_block_def create_user_def Employee_create_def save_user_def Let_def)
qed

lemma register_block_duplicate:
  assumes "reg_employee_id form \<in> set (map employee_id (employees d))"
  shows "register_block form now d = Inl IntegrityError"
  using assms
  by (simp add: register_block_def create_user_def Employee_create_def save_user_def Let_def)

text \<open>
  C4. Registration is all or nothing: whenever the view does not end in the success
  redirect, the database is exactly what it was. In particular, for a valid form with a
  fresh username and an \<open>employee_id\<close> that is already taken, the account row is
  inserted inside the block (\<open>create_user\<close> succeeds there), the employee insert raises,
  and the view returns with the database unchanged: no account row persists.
\<close>

theorem register_employee_atomic:
  "(register_employee request_user method form now d = (resp, d') \<and> resp \<noteq> RedirectToLogin
      \<longrightarrow> d' = d) \<and>
   (EmployeeRegisterForm_is_valid form \<and>
    reg_username form \<notin> set (map username (users d)) \<and>
    reg_employee_id form \<in> set (map employee_id (employees d))
      \<longrightarrow> (\<exists>u d1. create_user (reg_username form) (reg_password form) (reg_first_name form)
                       (reg_last_name form) d = Inr (u, d1) \<and>
                    users d1 = users d @ [u]) \<and>
          register_employee request_user POST form now d = (CouldNotRegister, d))"
proof -
  have a: "register_employee request_user method form now d = (resp, d') \<and>
           resp \<noteq> RedirectToLogin \<longrightarrow> d' = d"
    by (auto simp: register_employee_def atomic_def split: if_splits sum.splits prod.splits)
  have b: "register_employee request_user POST form now d = (CouldNotRegister, d)"
    if "EmployeeRegisterForm_is_valid form"
       "reg_employee_id form \<in> set (map employee_id (employees d))"
    using that register_block_duplicate [of form d now]
    by (simp add: register_employee_def atomic_def)
  have c: "\<exists>u d1. create_user (reg_username form) (reg_password form) (reg_first_name form)
                    (reg_last_name form) d = Inr (u, d1) \<and> users d1 = users d @ [u]"
    if "reg_username form \<notin> set (map username (users d))"
    using that by (simp add: create_user_def Let_def)
  from a b c show ?thesis by blast
qed

theorem register_employee_atomic_witness:
  "EmployeeRegisterForm_is_valid ex_duplicate_form \<and>
   reg_username ex_duplicate_form \<notin> set (map username (users ex_db)) \<and>
   reg_employee_id ex_duplicate_form \<in> set (map employee_id (employees ex_db)) \<and>
   register_employee None POST ex_duplicate_form t_0900 ex_db = (CouldNotRegister, ex_db)"
proof -
  have h: "EmployeeRegisterForm_is_valid ex_duplicate_form \<and>
           reg_username ex_duplicate_form \<notin> set (map username (users ex_db)) \<and>
           reg_employee_id ex_duplicate_form \<in> set (map employee_id (employees ex_db))"
    by (simp add: EmployeeRegisterForm_is_valid_def ex_duplicate_form_def ex_register_form_def
          ex_db_def ex_alice_def ex_bob_def ex_carol_def ex_emp1_def ex_emp2_def ex_emp0_def)
  from register_employee_atomic [of None POST ex_duplicate_form t_0900 ex_db] h
  show ?thesis by blast
qed

text \<open>
  C9. The registration view never looks at who calls it. Whenever a registration with
  the \<open>is_admin\<close> flag set succeeds, the account it appends has both the staff flag and
  the superuser flag set; and for every caller, the anonymous visitor included, a valid
  form with a fresh username and a fresh \<open>employee_id\<close> does succeed (on a database
  whose employee rows point to existing accounts).
\<close>

theorem register_employee_admin_open:
  assumes "reg_is_admin form"
  shows "(register_employee request_user method form now d = (RedirectToLogin, d') \<longrightarrow>
            (\<exists>u e. d' = d\<lparr>users := users d @ [u], employees := employees d @ [e]\<rparr> \<and>
                   username u = reg_username form \<and> is_staff u \<and> is_superuser u \<and>
                   emp_user e = user_pk u \<and> employee_id e = reg_employee_id form)) \<and>
         (EmployeeRegisterForm_is_valid form \<and>
          reg_username form \<notin> set (map username (users d)) \<and>
          reg_employee_id form \<notin> set (map employee_id (employees d)) \<and>
          set (map emp_user (employees d)) \<subseteq> set (map user_pk (users d))
            \<longrightarrow> fst (register_employee request_user POST form now d) = RedirectToLogin \<and>
                fst (register_employee None POST form now d) = RedirectToLogin)"
proof -
  have a: "\<exists>u e. d' = d\<lparr>users := users d @ [u], employees := employees d @ [e]\<rparr> \<and>
                 username u = reg_username form \<and> is_staff u \<and> is_superuser u \<and>
                 emp_user e = user_pk u \<and> employee_id e = reg_employee_id form"
    if run: "register_employee request_user method form now d = (RedirectToLogin, d')"
  proof -
    from run obtain u e where "register_block form now d = Inr ((u, e), d')"
      by (auto simp: register_employee_def atomic_def split: if_splits sum.splits prod.splits)
    from register_block_Inr [OF this] assms show ?thesis by blast
  qed
  have b: "fst (register_employee ru POST form now d) = RedirectToLogin"
    if "EmployeeRegisterForm_is_valid form"
       "reg_username form \<notin> set (map username (users d))"
       "reg_employee_id form \<notin> set (map employee_id (employees d))"
       "set (map emp_user (employees d)) \<subseteq> set (map user_pk (users d))"
    for ru
  proof -
    from register_block_succeeds [OF that(2,3,4), of now]
    obtain r where "register_block form now d = Inr r" by blast
    then show ?thesis using that(1)
      by (simp add: register_employee_def atomic_def split: prod.splits)
  qed
  from a b show ?thesis by blast
qed

theorem register_employee_admin_open_witness:
  "reg_is_admin ex_register_form \<and>
   fst (register_employee None POST ex_register_form t_0900 ex_db) = RedirectToLogin \<and>
   map is_staff (users (snd (register_employee None POST ex_register_form t_0900 ex_db))) =
     [True, False, False, True] \<and>
   map is_superuser (users (snd (register_employee None POST ex_register_form t_0900 ex_db))) =
     [False, False, False, True]"
proof -
  have adm: "reg_is_admin ex_register_form" by (simp add: ex_register_form_def)
  have h: "EmployeeRegisterForm_is_valid ex_register_form \<and>
           reg_username ex_register_form \<notin> set (map username (users ex_db)) \<and>
           reg_employee_id ex_register_form \<notin> set (map employee_id (employees ex_db)) \<and>
           set (map emp_user (employees ex_db)) \<subseteq> set (map user_pk (users ex_db))"
    by (simp add: EmployeeRegisterForm_is_valid_def ex_register_form_def
          ex_db_def ex_alice_def ex_bob_def ex_carol_def ex_emp1_def ex_emp2_def ex_emp0_def)
  let ?r = "register_employee None POST ex_register_form t_0900 ex_db"
  note inst = register_employee_admin_open [OF adm, of None POST t_0900 ex_db "snd ?r"]
  from inst h have ok: "fst ?r = RedirectToLogin" by blast
  then have "?r = (RedirectToLogin, snd ?r)" by (metis prod.collapse)
  with inst obtain u e where
    d: "snd ?r = ex_db\<lparr>users := users ex_db @ [u], employees := employees ex_db @ [e]\<rparr>" and
    u: "is_staff u" "is_superuser u"
    by blast
  have "users (snd ?r) = users ex_db @ [u]" by (subst d) simp
  then show ?thesis using adm ok u
    by (simp add: ex_db_def ex_alice_def ex_bob_def ex_carol_def)
qed

subsection \<open>The monthly report\<close>

lemma prepare_rows_eq:
  "prepare_rows agg rows n =
     (rows @ map make_row agg, n + sum_list (map agg_days_present agg))"
  by (induction agg arbitrary: rows n) simp_all

lemma monthrange_bounds: "monthrange year month = Some n \<Longrightarrow> 28 \<le> n \<and> n \<le> 31"
proof -
  assume a: "monthrange year month = Some n"
  then have "1 \<le> month \<and> month \<le> 12" by (simp add: monthrange_def split: if_splits)
  then have "month = 1 \<or> month = 2 \<or> month = 3 \<or> month = 4 \<or> month = 5 \<or> month = 6 \<or>
             month = 7 \<or> month = 8 \<or> month = 9 \<or> month = 10 \<or> month = 11 \<or> month = 12"
    by arith
  then show ?thesis using a by (auto simp: monthrange_def mdays_def)
qed

lemma report_queryset_last_day:
  "report_queryset viewer year month dept d = Inr (last_day, qs) \<Longrightarrow>
     monthrange year month = Some last_day"
  by (auto simp: report_queryset_def Let_def
           split: option.splits sum.splits if_splits get_error.splits)

lemma order_by_emp_id_length [simp]: "length (order_by_emp_id agg) = length agg"
  by (simp add: order_by_emp_id_def)

lemma order_by_emp_id_Nil_iff [simp]: "order_by_emp_id agg = [] \<longleftrightarrow> agg = []"
  by (metis length_0_conv order_by_emp_id_length)

lemma days_present_make_row [simp]: "row_days_present \<circ> make_row = agg_days_present"
  by (simp add: fun_eq_iff make_row_def Let_def)

lemma report_context_Inr:
  assumes "0 < last_day"
  shows "report_context last_day qs =
           Inr \<lparr>ctx_rows = map make_row (order_by_emp_id (values_annotate qs)),
                ctx_total_employees = length (values_annotate qs),
                ctx_total_present_days =
                  sum_list (map agg_days_present (order_by_emp_id (values_annotate qs))),
                ctx_average_attendance =
                  (if 0 < length (values_annotate qs)
                   then Format_1f (of_nat (sum_list (map agg_days_present
                                                  (order_by_emp_id (values_annotate qs)))) /
                                   of_nat (length (values_annotate qs) * last_day) * 100)
                   else Literal_0_percent),
                ctx_total_hours =
                  str_nat (sum_list (map row_total_seconds
                             (map make_row (order_by_emp_id (values_annotate qs)))) div 3600) @ ''h'',
                ctx_working_days = last_day\<rparr>"
  using assms
  by (simp add: report_context_def prepare_rows_eq average_attendance_def Let_def)

lemma monthly_report_Inr:
  assumes "monthly_report request_user year month dept d = Inr rep"
  obtains viewer last_day qs where
    "request_user = Some viewer"
    "report_queryset viewer year month dept d = Inr (last_day, qs)"
    "report_context last_day qs = Inr rep"
    "28 \<le> last_day" "last_day \<le> 31"
proof -
  from assms obtain viewer where v: "request_user = Some viewer"
    by (auto simp: monthly_report_def split: option.splits)
  from assms v obtain last_day qs where
    q: "report_queryset viewer year month dept d = Inr (last_day, qs)" and
    c: "report_context last_day qs = Inr rep"
    by (auto simp: monthly_report_def split: sum.splits)
  from monthrange_bounds [OF report_queryset_last_day [OF q]]
  show ?thesis using that v q c by blast
qed

lemma make_row_fields [simp]:
  "row_employee_id (make_row r) = agg_emp_id r"
  "row_name (make_row r) = agg_name r"
  "row_department (make_row r) = agg_department r"
  "row_days_present (make_row r) = agg_days_present r"
  "row_total_seconds (make_row r) = agg_total_seconds r"
  "row_total_time (make_row r) =
     str_nat (agg_total_seconds r div 3600) @ ''h '' @
     str_nat (agg_total_seconds r mod 3600 div 60) @ ''m''"
  by (simp_all add: make_row_def Let_def)

text \<open>
  C6. In every monthly report the employee count is the number of rows, the total of
  days present is the sum over the rows, and the working days are the days of the
  month (28 to 31, never 0). With a positive employee count the average attendance is
  (the one-decimal text of) total days present / (employee count * working days) * 100;
  with an employee count of 0 it is the literal 0%, computed without a division: the
  guard answers 0% whatever the working days are, and the report never fails with a
  division by zero.
\<close>

theorem average_attendance_guarded:
  "(monthly_report request_user year month dept d = Inr rep \<longrightarrow>
      ctx_total_employees rep = length (ctx_rows rep) \<and>
      ctx_total_present_days rep = sum_list (map row_days_present (ctx_rows rep)) \<and>
      monthrange year month = Some (ctx_working_days rep) \<and>
      28 \<le> ctx_working_days rep \<and> ctx_working_days rep \<le> 31 \<and>
      (0 < ctx_total_employees rep \<longrightarrow>
         ctx_average_attendance rep =
           Format_1f (of_nat (ctx_total_present_days rep) /
                      of_nat (ctx_total_employees rep * ctx_working_days rep) * 100)) \<and>
      (ctx_total_employees rep = 0 \<longrightarrow> ctx_average_attendance rep = Literal_0_percent)) \<and>
   average_attendance total_present_days 0 working_days = Some Literal_0_percent \<and>
   monthly_report request_user year month dept d \<noteq> Inl ZeroDivisionError"
proof -
  have a: "ctx_total_employees rep = length (ctx_rows rep) \<and>
      ctx_total_present_days rep = sum_list (map row_days_present (ctx_rows rep)) \<and>
      monthrange year month = Some (ctx_working_days rep) \<and>
      28 \<le> ctx_working_days rep \<and> ctx_working_days rep \<le> 31 \<and>
      (0 < ctx_total_employees rep \<longrightarrow>
         ctx_average_attendance rep =
           Format_1f (of_nat (ctx_total_present_days rep) /
                      of_nat (ctx_total_employees rep * ctx_working_days rep) * 100)) \<and>
      (ctx_total_employees rep = 0 \<longrightarrow> ctx_average_attendance rep = Literal_0_percent)"
    if run: "monthly_report request_user year month dept d = Inr rep"
  proof -
    from run obtain viewer last_day qs where
      q: "report_queryset viewer year month dept d = Inr (last_day, qs)" and
      c: "report_context last_day qs = Inr rep" and
      b: "28 \<le> last_day" "last_day \<le> 31"
      by (rule monthly_report_Inr)
    have pos: "0 < last_day" using b by simp
    from c report_context_Inr [OF pos, of qs] have
      rep: "rep = \<lparr>ctx_rows = map make_row (order_by_emp_id (values_annotate qs)),
                ctx_total_employees = length (values_annotate qs),
                ctx_total_present_days =
                  sum_list (map agg_days_present (order_by_emp_id (values_annotate qs))),
                ctx_average_attendance =
                  (if 0 < length (values_annotate qs)
                   then Format_1f (of_nat (sum_list (map agg_days_present
                                                  (order_by_emp_id (values_annotate qs)))) /
                                   of_nat (length (values_annotate qs) * last_day) * 100)
                   else Literal_0_percent),
                ctx_total_hours =
                  str_nat (sum_list (map row_total_seconds
                             (map make_row (order_by_emp_id (values_annotate qs)))) div 3600) @ ''h'',
                ctx_working_days = last_day\<rparr>"
      by simp
    show ?thesis
      unfolding rep using b report_queryset_last_day [OF q]
      by simp
  qed
  have z: "average_attendance total_present_days 0 working_days = Some Literal_0_percent"
    by (simp add: average_attendance_def)
  have n: "monthly_report request_user year month dept d \<noteq> Inl ZeroDivisionError"
  proof (cases "monthly_report request_user year month dept d")
    case (Inr rep)
    then show ?thesis by simp
  next
    case (Inl f)
    show ?thesis
    proof (cases request_user)
      case None
      then show ?thesis by (simp add: monthly_report_def)
    next
      case (Some viewer)
      show ?thesis
      proof (cases "report_queryset viewer year month dept d")
        case (Inl g)
        then have "g \<noteq> ZeroDivisionError"
          by (auto simp: report_queryset_def Let_def
                   split: option.splits sum.splits if_splits get_error.splits prod.splits)
        then show ?thesis using Some Inl by (simp add: monthly_report_def)
      next
        case (Inr p)
        obtain last_day qs where p: "p = (last_day, qs)" by (cases p)
        from monthrange_bounds [OF report_queryset_last_day [OF Inr [unfolded p]]]
        have "0 < last_day" by simp
        from report_context_Inr [OF this, of qs] show ?thesis
          using Some Inr p by (simp add: monthly_report_def)
      qed
    qed
  qed
  from a z n show ?thesis by blast
qed

text \<open>The report on the example database, by computation.\<close>

lemmas ex_defs = ex_march_db_def ex_db_def ex_alice_def ex_bob_def ex_carol_def ex_emp1_def
  ex_emp2_def ex_emp0_def ex_day_def ex_joined_def t_0900_def t_1000_def t_1730_def
  ex_row_bob_def ex_row_carol_def ex_row_alice_def ex_report_march_def ex_report_april_def
  ex_report_bob_def

lemmas report_defs = monthly_report_def report_context_def values_annotate_def group_key_def
  order_by_emp_id_def make_row_def average_attendance_def report_queryset_def monthrange_def
  mdays_def to_date_def select_related_def date_le_def get_one_def isleap_def str_nat.simps
  digit_char_def Let_def

lemma ex_report_march_run:
  "monthly_report (Some ex_alice) 2024 3 [] ex_march_db = Inr ex_report_march"
  by (simp add: report_defs ex_defs)

lemma ex_report_april_run:
  "monthly_report (Some ex_alice) 2024 4 [] ex_march_db = Inr ex_report_april"
  by (simp add: report_defs ex_defs)

lemma ex_report_bob_run:
  "monthly_report (Some ex_bob) 2024 3 ''HR'' ex_march_db = Inr ex_report_bob"
  by (simp add: report_defs ex_defs)

theorem average_attendance_guarded_witness:
  "monthly_report (Some ex_alice) 2024 3 [] ex_march_db = Inr ex_report_march \<and>
   ctx_total_employees ex_report_march = 3 \<and>
   ctx_average_attendance ex_report_march = Format_1f (2 / (3 * 31) * 100) \<and>
   monthly_report (Some ex_alice) 2024 4 [] ex_march_db = Inr ex_report_april \<and>
   ctx_total_employees ex_report_april = 0 \<and>
   ctx_average_attendance ex_report_april = Literal_0_percent"
proof -
  have m: "ctx_total_employees ex_report_march = 3" "ctx_total_present_days ex_report_march = 2"
    "ctx_working_days ex_report_march = 31"
    by (simp_all add: ex_report_march_def)
  have a: "ctx_total_employees ex_report_april = 0"
    by (simp add: ex_report_april_def)
  from average_attendance_guarded
         [of "Some ex_alice" 2024 3 "[]" ex_march_db ex_report_march 0 0]
       ex_report_march_run m
  have "ctx_average_attendance ex_report_march = Format_1f (2 / (3 * 31) * 100)"
    by simp
  moreover
  from average_attendance_guarded
         [of "Some ex_alice" 2024 4 "[]" ex_march_db ex_report_april 0 0]
       ex_report_april_run a
  have "ctx_average_attendance ex_report_april = Literal_0_percent"
    by simp
  ultimately show ?thesis using ex_report_march_run ex_report_april_run m a by simp
qed

lemma days_present_count:
  "sum_list (map (\<lambda>(a, e, u). if clock_in a \<noteq> None then 1 else 0) xs) =
     length (filter (\<lambda>(a, e, u). clock_in a \<noteq> None) xs)"
  by (induction xs) auto


lemma values_annotate_row:
  assumes "g \<in> set (values_annotate qs)"
  shows "(agg_emp_id g, agg_name g, agg_department g) \<in> group_key ` set qs \<and>
         agg_total_seconds g =
           sum_list (map (\<lambda>(a, e, u). worked_seconds a)
             (filter (\<lambda>x. group_key x = (agg_emp_id g, agg_name g, agg_department g)) qs)) \<and>
         agg_days_present g =
           length (filter (\<lambda>(a, e, u). clock_in a \<noteq> None)
             (filter (\<lambda>x. group_key x = (agg_emp_id g, agg_name g, agg_department g)) qs))"
proof -
  from assms obtain k where k: "k \<in> set (map group_key qs)" and
    g: "g = \<lparr>agg_emp_id = fst k, agg_name = fst (snd k), agg_department = snd (snd k),
             agg_total_seconds =
               sum_list (map (\<lambda>(a, e, u). worked_seconds a) (filter (\<lambda>r. group_key r = k) qs)),
             agg_days_present =
               sum_list (map (\<lambda>(a, e, u). if clock_in a \<noteq> None then 1 else 0)
                 (filter (\<lambda>r. group_key r = k) qs))\<rparr>"
    by (auto simp: values_annotate_def Let_def)
  have kk: "(agg_emp_id g, agg_name g, agg_department g) = k" by (simp add: g)
  have t: "agg_total_seconds g =
             sum_list (map (\<lambda>(a, e, u). worked_seconds a) (filter (\<lambda>x. group_key x = k) qs))"
    by (simp add: g)
  have "agg_days_present g =
          sum_list (map (\<lambda>(a, e, u). if clock_in a \<noteq> None then 1 else 0)
            (filter (\<lambda>x. group_key x = k) qs))"
    by (simp add: g)
  also have "\<dots> = length (filter (\<lambda>(a, e, u). clock_in a \<noteq> None)
                        (filter (\<lambda>x. group_key x = k) qs))"
    by (rule days_present_count)
  finally have p: "agg_days_present g =
                     length (filter (\<lambda>(a, e, u). clock_in a \<noteq> None)
                        (filter (\<lambda>x. group_key x = k) qs))" .
  from k have "k \<in> group_key ` set qs" by simp
  with t p show ?thesis unfolding kk by blast
qed



lemma select_related_mem:
  "(a, e, u) \<in> set (select_related d) \<longleftrightarrow>
     a \<in> set (attendances d) \<and> e \<in> set (employees d) \<and> emp_pk e = att_employee a \<and>
     u \<in> set (users d) \<and> user_pk u = emp_user e"
  by (auto simp: select_related_def)

lemma distinct_map_eq:
  "distinct (map f xs) \<Longrightarrow> x \<in> set xs \<Longrightarrow> y \<in> set xs \<Longrightarrow> f x = f y \<Longrightarrow> x = y"
  by (simp add: distinct_map inj_on_def)

lemma remdups_all_equal:
  assumes "\<forall>x \<in> set xs. \<forall>y \<in> set xs. x = y"
  shows "length (remdups xs) \<le> 1"
proof -
  have "card (set xs) \<le> Suc 0" using assms by (simp add: card_le_Suc0_iff_eq)
  then show ?thesis by (simp add: length_remdups_card_conv)
qed

lemma report_queryset_non_staff:
  assumes "\<not> is_staff viewer"
      and "report_queryset viewer year month dept d = Inr (last_day, qs)"
  shows "\<exists>emp all_rows.
           get_one (\<lambda>e. emp_user e = user_pk viewer) (employees d) = Inr emp \<and>
           report_queryset (viewer\<lparr>is_staff := True\<rparr>) year month [] d = Inr (last_day, all_rows) \<and>
           qs = filter (\<lambda>(a, e, u). att_employee a = emp_pk emp) all_rows \<and>
           set all_rows \<subseteq> set (select_related d)"
  using assms
  by (auto simp: report_queryset_def Let_def
           split: option.splits sum.splits get_error.splits)

lemma report_queryset_department_ignored:
  "\<not> is_staff viewer \<Longrightarrow>
     report_queryset viewer year month dept d = report_queryset viewer year month dept' d"
  by (simp add: report_queryset_def Let_def split: option.splits sum.splits prod.splits)

text \<open>
  C3. For a non-staff viewer the queryset that is aggregated is the month's queryset
  (what a staff viewer with no department filter gets) narrowed to the records of the
  viewer's own employee; the requested department plays no part, so every department
  gives the same report. On a database whose primary keys are unique the report has at
  most one row, and a row it has is the viewer's own (own employee id and department).
\<close>

theorem non_staff_report_own_rows:
  assumes "\<not> is_staff viewer"
      and "monthly_report (Some viewer) year month dept d = Inr rep"
      and "distinct (map emp_pk (employees d))"
      and "distinct (map user_pk (users d))"
  shows "\<exists>emp last_day all_rows.
           get_one (\<lambda>e. emp_user e = user_pk viewer) (employees d) = Inr emp \<and>
           report_queryset (viewer\<lparr>is_staff := True\<rparr>) year month [] d = Inr (last_day, all_rows) \<and>
           report_queryset viewer year month dept d =
             Inr (last_day, filter (\<lambda>(a, e, u). att_employee a = emp_pk emp) all_rows) \<and>
           monthly_report (Some viewer) year month dept' d = Inr rep \<and>
           length (ctx_rows rep) \<le> 1 \<and>
           (\<forall>r \<in> set (ctx_rows rep).
              row_employee_id r = employee_id emp \<and> row_department r = department emp)"
proof -
  from assms(2) obtain v last_day qs where
    v: "Some viewer = Some v" and
    q0: "report_queryset v year month dept d = Inr (last_day, qs)" and
    c: "report_context last_day qs = Inr rep" and
    b: "28 \<le> last_day"
    by (rule monthly_report_Inr)
  from v q0 have q: "report_queryset viewer year month dept d = Inr (last_day, qs)" by simp
  have pos: "0 < last_day" using b by simp
  from report_queryset_non_staff [OF assms(1) q] obtain emp all_rows where
    g: "get_one (\<lambda>e. emp_user e = user_pk viewer) (employees d) = Inr emp" and
    a: "report_queryset (viewer\<lparr>is_staff := True\<rparr>) year month [] d = Inr (last_day, all_rows)" and
    qs: "qs = filter (\<lambda>(a, e, u). att_employee a = emp_pk emp) all_rows" and
    sub: "set all_rows \<subseteq> set (select_related d)"
    by blast
  have emp_in: "emp \<in> set (employees d)" using get_one_mem [OF g] by simp
  have own: "e = emp \<and> user_pk u = emp_user emp \<and> u \<in> set (users d)"
    if "(a, e, u) \<in> set qs" for a e u
  proof -
    from that qs sub have m: "(a, e, u) \<in> set (select_related d)" and
      k: "att_employee a = emp_pk emp" by auto
    from m have e: "e \<in> set (employees d)" "emp_pk e = att_employee a"
      "u \<in> set (users d)" "user_pk u = emp_user e"
      by (simp_all add: select_related_mem)
    have "e = emp" using distinct_map_eq [OF assms(3) e(1) emp_in] e(2) k by simp
    then show ?thesis using e by simp
  qed
  have key_eq: "group_key x = group_key y" if "x \<in> set qs" "y \<in> set qs" for x y
  proof -
    obtain a e u where x: "x = (a, e, u)" by (cases x)
    obtain a' e' u' where y: "y = (a', e', u')" by (cases y)
    from own [of a e u] own [of a' e' u'] that x y
    have "e = emp" "e' = emp" "u \<in> set (users d)" "u' \<in> set (users d)" "user_pk u = user_pk u'"
      by simp_all
    then have "u = u'" "e = e'" using distinct_map_eq [OF assms(4)] by auto
    then show ?thesis by (simp add: x y group_key_def)
  qed
  have key_emp: "fst (group_key x) = employee_id emp \<and> snd (snd (group_key x)) = department emp"
    if "x \<in> set qs" for x
  proof -
    obtain a e u where x: "x = (a, e, u)" by (cases x)
    from own [of a e u] that x show ?thesis by (simp add: group_key_def)
  qed
  have rows: "ctx_rows rep = map make_row (order_by_emp_id (values_annotate qs))"
    using c report_context_Inr [OF pos, of qs] by auto
  have "length (remdups (map group_key qs)) \<le> 1"
    by (rule remdups_all_equal) (auto intro: key_eq)
  then have len: "length (ctx_rows rep) \<le> 1"
    unfolding rows by (simp add: values_annotate_def)
  have each: "row_employee_id r = employee_id emp \<and> row_department r = department emp"
    if "r \<in> set (ctx_rows rep)" for r
  proof -
    from that rows obtain ag where
      ag: "ag \<in> set (values_annotate qs)" and r: "r = make_row ag"
      by (auto simp: order_by_emp_id_def)
    from values_annotate_row [OF ag] obtain x where
      x: "x \<in> set qs" "group_key x = (agg_emp_id ag, agg_name ag, agg_department ag)"
      by auto
    from key_emp [OF x(1)] x(2) show ?thesis by (simp add: r)
  qed
  have dep: "monthly_report (Some viewer) year month dept' d = Inr rep"
    using assms(2) report_queryset_department_ignored [OF assms(1), of year month dept d dept']
    by (simp add: monthly_report_def)
  from g a q qs dep len each show ?thesis by blast
qed

theorem non_staff_report_own_rows_witness:
  "\<not> is_staff ex_bob \<and>
   monthly_report (Some ex_bob) 2024 3 ''HR'' ex_march_db = Inr ex_report_bob \<and>
   monthly_report (Some ex_bob) 2024 3 ''IT'' ex_march_db = Inr ex_report_bob \<and>
   length (ctx_rows ex_report_bob) \<le> 1 \<and>
   map row_employee_id (ctx_rows ex_report_bob) = [''EMP2'']"
proof -
  have s: "\<not> is_staff ex_bob" by (simp add: ex_bob_def)
  have p: "distinct (map emp_pk (employees ex_march_db))"
    "distinct (map user_pk (users ex_march_db))"
    by (simp_all add: ex_defs)
  from non_staff_report_own_rows [OF s ex_report_bob_run p, of "''IT''"]
  have "monthly_report (Some ex_bob) 2024 3 ''IT'' ex_march_db = Inr ex_report_bob \<and>
        length (ctx_rows ex_report_bob) \<le> 1"
    by blast
  then show ?thesis using s ex_report_bob_run
    by (simp add: ex_report_bob_def ex_row_bob_def)
qed

subsection \<open>Marking attendance\<close>

lemma Attendance_compute_fields [simp]:
  "att_pk (Attendance_compute a) = att_pk a"
  "att_employee (Attendance_compute a) = att_employee a"
  "att_date (Attendance_compute a) = att_date a"
  "clock_in (Attendance_compute a) = clock_in a"
  "clock_out (Attendance_compute a) = clock_out a"
  by (simp_all add: Attendance_compute_def split: option.splits)








end
